theory Spec2Isabelle
  imports Complex_Main "HOL-Library.Sublist"
begin

section \<open>Python values\<close>

text \<open>
  The values a quantity can cache, a command template can receive and a transport can
  return: \<open>None\<close>, booleans, integers, finite floats (as the rational number each one
  denotes), strings, and the numeric arrays that \<open>np.asarray\<close> produces from a reply
  (one-dimensional, as a list of numbers; \<open>VArrayNone\<close> is \<open>np.asarray(None)\<close>, the
  zero-dimensional object array that holds \<open>None\<close>).
\<close>

datatype pyval =
    VNone
  | VBool bool
  | VInt int
  | VFloat rat
  | VStr string
  | VArray "rat list"
  | VArrayNone

datatype error =
    TypeError
  | ValueError
  | KeyError
  | IndexError
  | AttributeError
  | ImportError
  | NameError
  | VisaIOError

type_synonym kwargs = "(string \<times> pyval) list"

text \<open>
  \<open>template % dict(...)\<close> is Python's printf-style formatting operator. It is a
  builtin, and no property below depends on the text it produces, so it is a parameter:
  a function from the template and the keyword dictionary to the command, or to the
  exception the operator raises (a missing key, a wrong conversion).
\<close>

type_synonym formatter = "string \<Rightarrow> kwargs \<Rightarrow> error + string"

definition kw_get :: "string \<Rightarrow> kwargs \<Rightarrow> pyval" where
  "kw_get k kw = (case map_of kw k of None \<Rightarrow> VNone | Some v \<Rightarrow> v)"

definition kw_del :: "string \<Rightarrow> kwargs \<Rightarrow> kwargs" where
  "kw_del k kw = filter (\<lambda>p. fst p \<noteq> k) kw"

fun hashable :: "pyval \<Rightarrow> bool" where
  "hashable (VArray xs) = False"
| "hashable VArrayNone = False"
| "hashable v = True"

fun py_num :: "pyval \<Rightarrow> rat option" where
  "py_num (VBool b) = Some (if b then 1 else 0)"
| "py_num (VInt n) = Some (of_int n)"
| "py_num (VFloat r) = Some r"
| "py_num v = None"

text \<open>\<open>a == b\<close> on the scalars: numbers compare by value across bool, int and float.\<close>

definition py_eq :: "pyval \<Rightarrow> pyval \<Rightarrow> bool" where
  "py_eq a b =
     (case a of
        VNone \<Rightarrow> b = VNone
      | VStr s \<Rightarrow> b = VStr s
      | _ \<Rightarrow> (case py_num a of
                None \<Rightarrow> False
              | Some x \<Rightarrow> (case py_num b of None \<Rightarrow> False | Some y \<Rightarrow> x = y)))"

text \<open>
  The truth value of a comparison result that has \<open>n\<close> elements, the only one being
  \<open>b\<close> when \<open>n = 1\<close>: an array of several elements has no truth value (ValueError).
\<close>

definition array_truth :: "nat \<Rightarrow> bool \<Rightarrow> error + bool" where
  "array_truth n b = (if n = 0 then Inr False else if n = 1 then Inr b else Inl ValueError)"

text \<open>
  \<open>if a == b\<close>, where \<open>a\<close> is a scalar: against an array the comparison is
  elementwise and the test takes the truth value of the resulting array.
\<close>

definition py_eq_test :: "pyval \<Rightarrow> pyval \<Rightarrow> error + bool" where
  "py_eq_test a b =
     (case b of
        VArray ys \<Rightarrow>
          (case a of
             VArray xs \<Rightarrow>
               (if length xs = length ys then array_truth (length ys) (xs = ys)
                else if length xs = 1 then array_truth (length ys) (hd xs = hd ys)
                else if length ys = 1 then array_truth (length xs) (hd xs = hd ys)
                else Inl ValueError)
           | VArrayNone \<Rightarrow> array_truth (length ys) False
           | _ \<Rightarrow> array_truth (length ys) (py_num a = Some (hd ys)))
      | VArrayNone \<Rightarrow>
          (case a of
             VArray xs \<Rightarrow> array_truth (length xs) False
           | VArrayNone \<Rightarrow> Inr True
           | _ \<Rightarrow> Inr (a = VNone))
      | _ \<Rightarrow>
          (case a of
             VArray xs \<Rightarrow> array_truth (length xs) (py_num b = Some (hd xs))
           | VArrayNone \<Rightarrow> Inr (b = VNone)
           | _ \<Rightarrow> Inr (py_eq a b)))"

text \<open>\<open>bool(v)\<close>.\<close>

fun py_truth :: "pyval \<Rightarrow> error + bool" where
  "py_truth VNone = Inr False"
| "py_truth (VBool b) = Inr b"
| "py_truth (VInt n) = Inr (n \<noteq> 0)"
| "py_truth (VFloat r) = Inr (r \<noteq> 0)"
| "py_truth (VStr s) = Inr (s \<noteq> [])"
| "py_truth (VArray xs) = array_truth (length xs) (hd xs \<noteq> 0)"
| "py_truth VArrayNone = Inr False"

subsection \<open>Strings\<close>

text \<open>
  A string is the list of its code points, here below 256. \<open>str.strip()\<close> removes the
  characters for which \<open>str.isspace\<close> holds.
\<close>

definition is_space :: "char \<Rightarrow> bool" where
  "is_space c = ((of_char c :: nat) \<in> {9, 10, 11, 12, 13, 28, 29, 30, 31, 32, 133, 160})"

definition strip_chars :: "(char \<Rightarrow> bool) \<Rightarrow> string \<Rightarrow> string" where
  "strip_chars p s = rev (dropWhile p (rev (dropWhile p s)))"

definition py_strip :: "string \<Rightarrow> string" where
  "py_strip s = strip_chars is_space s"

definition is_digit :: "char \<Rightarrow> bool" where
  "is_digit c = (48 \<le> (of_char c :: nat) \<and> (of_char c :: nat) \<le> 57)"

definition digit_val :: "char \<Rightarrow> nat" where
  "digit_val c = of_char c - 48"

text \<open>
  The digits of an integer literal as \<open>int(str)\<close> accepts them: decimal digits, with
  single underscores allowed between two digits. The flag says that the previous character
  was a digit.
\<close>

fun parse_digits :: "nat \<Rightarrow> bool \<Rightarrow> string \<Rightarrow> nat option" where
  "parse_digits acc after_digit [] = (if after_digit then Some acc else None)"
| "parse_digits acc after_digit (c # cs) =
     (if is_digit c then parse_digits (acc * 10 + digit_val c) True cs
      else if c = CHR ''_'' \<and> after_digit then parse_digits acc False cs
      else None)"

text \<open>
  \<open>int(s)\<close> skips white space at both ends of the string, and its set is smaller than
  that of \<open>str.strip()\<close>: tab, line feed, vertical tab, form feed, carriage return and
  space, and the two spaces above 127; the separators 0x1C to 0x1F are not skipped. (The
  limit that newer interpreters put on the number of digits is not modelled.)
\<close>

definition is_int_space :: "char \<Rightarrow> bool" where
  "is_int_space c = ((of_char c :: nat) \<in> {9, 10, 11, 12, 13, 32, 133, 160})"

definition py_int_str :: "string \<Rightarrow> error + int" where
  "py_int_str s =
     (let t = strip_chars is_int_space s;
          (neg, body) = (case t of
                           [] \<Rightarrow> (False, [])
                         | c # cs \<Rightarrow> if c = CHR ''-'' then (True, cs)
                                    else if c = CHR ''+'' then (False, cs)
                                    else (False, t))
      in case parse_digits 0 False body of
           None \<Rightarrow> Inl ValueError
         | Some n \<Rightarrow> Inr (if neg then - int n else int n))"

text \<open>A natural number in decimal digits, and \<open>str(n)\<close> of an integer.\<close>

function decimal :: "nat \<Rightarrow> string" where
  "decimal n = (if n < 10 then [char_of (48 + n)]
                else decimal (n div 10) @ [char_of (48 + n mod 10)])"
  by pat_completeness auto
termination
  by (relation "measure id") auto

declare decimal.simps [simp del]



text \<open>\<open>int(x)\<close> of a float truncates towards zero.\<close>

definition trunc :: "rat \<Rightarrow> int" where
  "trunc r = (if 0 \<le> r then \<lfloor>r\<rfloor> else \<lceil>r\<rceil>)"

fun py_int :: "pyval \<Rightarrow> error + int" where
  "py_int VNone = Inl TypeError"
| "py_int (VBool b) = Inr (if b then 1 else 0)"
| "py_int (VInt n) = Inr n"
| "py_int (VFloat r) = Inr (trunc r)"
| "py_int (VStr s) = py_int_str s"
| "py_int (VArray xs) = (case xs of [x] \<Rightarrow> Inr (trunc x) | _ \<Rightarrow> Inl TypeError)"
| "py_int VArrayNone = Inl TypeError"

text \<open>
  \<open>s.split(sep)\<close> for a separator that is not empty: the pieces between the
  occurrences of the separator, found from the left and not overlapping.
\<close>

function py_split_aux :: "string \<Rightarrow> string \<Rightarrow> string \<Rightarrow> string list" where
  "py_split_aux sep acc [] = [rev acc]"
| "py_split_aux sep acc (c # cs) =
     (if sep \<noteq> [] \<and> prefix sep (c # cs)
      then rev acc # py_split_aux sep [] (drop (length sep) (c # cs))
      else py_split_aux sep (c # acc) cs)"
  by pat_completeness auto
termination
  by (relation "measure (\<lambda>(sep, acc, s). length s)") (auto simp: neq_Nil_conv)

definition py_split :: "string \<Rightarrow> string \<Rightarrow> string list" where
  "py_split sep s = py_split_aux sep [] s"

section \<open>The transport\<close>

text \<open>
  The transport handle \<open>ins\<close> is the bus library's object; the driver only calls its
  methods. It is modelled by the calls it has received so far, in order, and by what it
  answers to the next call given those: any deterministic instrument, also one that
  raises, and one that raises on every call after \<open>close\<close>. The conversion arguments of
  the ascii and binary variants (converter, separator, datatype, byte order, delay,
  header format, termination, encoding) are handed through unread, as a list.
\<close>

datatype call =
    Query string
  | QueryAscii string "pyval list"
  | QueryBinary string "pyval list"
  | Write string
  | WriteAscii string pyval "pyval list"
  | WriteBinary string pyval "pyval list"
  | Close

record transport =
  t_calls :: "call list"
  t_timeout :: rat
  t_text :: "call list \<Rightarrow> string \<Rightarrow> error + string"
  t_values :: "call list \<Rightarrow> call \<Rightarrow> error + rat list"
  t_done :: "call list \<Rightarrow> call \<Rightarrow> error option"

definition ins_query :: "transport \<Rightarrow> string \<Rightarrow> (error + string) \<times> transport" where
  "ins_query t msg = (t_text t (t_calls t) msg, t\<lparr>t_calls := t_calls t @ [Query msg]\<rparr>)"

definition ins_values :: "transport \<Rightarrow> call \<Rightarrow> (error + rat list) \<times> transport" where
  "ins_values t c = (t_values t (t_calls t) c, t\<lparr>t_calls := t_calls t @ [c]\<rparr>)"

definition ins_do :: "transport \<Rightarrow> call \<Rightarrow> error option \<times> transport" where
  "ins_do t c = (t_done t (t_calls t) c, t\<lparr>t_calls := t_calls t @ [c]\<rparr>)"

section \<open>Quantities and drivers\<close>

datatype kind = KQuantity | KReal | KInteger | KString | KOption | KBool | KVector | KList

record quantity =
  q_name :: string
  q_value :: pyval
  q_kind :: kind
  q_unit :: pyval
  q_ch :: pyval
  q_get_cmd :: string
  q_set_cmd :: string
  q_options :: "(pyval \<times> pyval) list"

text \<open>
  The driver of \<open>BaseDriver\<close>. A quantity's \<open>driver\<close> attribute is a reference to it:
  the functions of a quantity take the driver it refers to (or \<open>None\<close>) as an argument
  and return it as the I/O has left it.
\<close>

record driver =
  d_addr :: pyval
  d_ins :: "transport option"
  d_timeout :: rat
  d_model :: pyval
  d_quantities :: "string \<rightharpoonup> quantity"
  d_error_command :: string

subsection \<open>The driver's read and write primitives\<close>

text \<open>
  Each primitive returns \<open>None\<close> when the driver has no transport, and otherwise hands
  the call to the transport; an exception of the transport is logged and raised again.
  The \<open>_io\<close> functions are the primitives up to that point, which is all of them when
  \<open>check_errors\<close> is left at its default \<open>False\<close>. Logging has no effect on the
  driver and is left out.
\<close>

definition query_io :: "driver \<Rightarrow> string \<Rightarrow> (error + string option) \<times> driver" where
  "query_io d msg =
     (case d_ins d of
        None \<Rightarrow> (Inr None, d)
      | Some t \<Rightarrow>
          (case ins_query t msg of
             (Inl e, t') \<Rightarrow> (Inl e, d\<lparr>d_ins := Some t'\<rparr>)
           | (Inr res, t') \<Rightarrow> (Inr (Some res), d\<lparr>d_ins := Some t'\<rparr>)))"

definition values_io :: "driver \<Rightarrow> call \<Rightarrow> (error + rat list option) \<times> driver" where
  "values_io d c =
     (case d_ins d of
        None \<Rightarrow> (Inr None, d)
      | Some t \<Rightarrow>
          (case ins_values t c of
             (Inl e, t') \<Rightarrow> (Inl e, d\<lparr>d_ins := Some t'\<rparr>)
           | (Inr res, t') \<Rightarrow> (Inr (Some res), d\<lparr>d_ins := Some t'\<rparr>)))"

definition query_ascii_values_io ::
  "driver \<Rightarrow> string \<Rightarrow> pyval list \<Rightarrow> (error + rat list option) \<times> driver" where
  "query_ascii_values_io d msg args = values_io d (QueryAscii msg args)"

definition query_binary_values_io ::
  "driver \<Rightarrow> string \<Rightarrow> pyval list \<Rightarrow> (error + rat list option) \<times> driver" where
  "query_binary_values_io d msg args = values_io d (QueryBinary msg args)"

text \<open>The write primitives return \<open>self\<close>, or \<open>None\<close> without a transport.\<close>

datatype ret = RetNone | RetSelf

definition do_io :: "driver \<Rightarrow> call \<Rightarrow> (error + ret) \<times> driver" where
  "do_io d c =
     (case d_ins d of
        None \<Rightarrow> (Inr RetNone, d)
      | Some t \<Rightarrow>
          (case ins_do t c of
             (Some e, t') \<Rightarrow> (Inl e, d\<lparr>d_ins := Some t'\<rparr>)
           | (None, t') \<Rightarrow> (Inr RetSelf, d\<lparr>d_ins := Some t'\<rparr>)))"

definition write_io :: "driver \<Rightarrow> string \<Rightarrow> (error + ret) \<times> driver" where
  "write_io d msg = do_io d (Write msg)"

fun py_len :: "pyval \<Rightarrow> error + nat" where
  "py_len (VStr s) = Inr (length s)"
| "py_len (VArray xs) = Inr (length xs)"
| "py_len v = Inl TypeError"

definition write_ascii_values_io ::
  "driver \<Rightarrow> string \<Rightarrow> pyval \<Rightarrow> pyval list \<Rightarrow> (error + ret) \<times> driver" where
  "write_ascii_values_io d msg vals args =
     (case d_ins d of
        None \<Rightarrow> (Inr RetNone, d)
      | Some t \<Rightarrow>
          (case py_len vals of
             Inl e \<Rightarrow> (Inl e, d)
           | Inr n \<Rightarrow> do_io d (WriteAscii msg vals args)))"

text \<open>
  \<open>IEEE_488_2_BinBlock\<close> comes from the module \<open>util\<close>. \<open>write_binary_values\<close> calls
  it for the header it logs, before the transport sees anything, so here it is a
  parameter: from the values, the datatype and the byte order to the block and its
  header, or to the exception it raises.
\<close>

type_synonym binblock = "pyval \<Rightarrow> pyval \<Rightarrow> pyval \<Rightarrow> error + (string \<times> string)"

definition write_binary_values_io ::
  "binblock \<Rightarrow> driver \<Rightarrow> string \<Rightarrow> pyval \<Rightarrow> pyval \<Rightarrow> pyval \<Rightarrow> pyval list
     \<Rightarrow> (error + ret) \<times> driver" where
  "write_binary_values_io bb d msg vals datatype is_big_endian args =
     (case d_ins d of
        None \<Rightarrow> (Inr RetNone, d)
      | Some t \<Rightarrow>
          (case bb vals datatype is_big_endian of
             Inl e \<Rightarrow> (Inl e, d)
           | Inr (block, header) \<Rightarrow>
               do_io d (WriteBinary msg vals (datatype # is_big_endian # args))))"

subsection \<open>The error queue\<close>

text \<open>
  One reply of the error queue: \<open>s[:-1].split(',"')\<close>, then \<open>int(_[0])\<close> and
  \<open>_[1]\<close>, in this order.
\<close>

definition parse_error_reply :: "string \<Rightarrow> error + (int \<times> string)" where
  "parse_error_reply s =
     (let fields = py_split '',\"'' (butlast s)
      in case py_int_str (hd fields) of
           Inl e \<Rightarrow> Inl e
         | Inr code \<Rightarrow>
             (case tl fields of
                [] \<Rightarrow> Inl IndexError
              | msg # _ \<Rightarrow> Inr (code, msg)))"


text \<open>
  The loop of \<open>errors\<close> asks until a reply has code 0. Nothing bounds it: against a
  transport that never answers 0 it does not return, which is the value \<open>None\<close> here.
\<close>

partial_function (option) errors_loop ::
  "transport \<Rightarrow> string \<Rightarrow> (int \<times> string) list
     \<Rightarrow> ((error + (int \<times> string) list) \<times> transport) option" where
  "errors_loop t cmd e =
     (case ins_query t cmd of
        (Inl err, t') \<Rightarrow> Some (Inl err, t')
      | (Inr s, t') \<Rightarrow>
          (case parse_error_reply s of
             Inl err \<Rightarrow> Some (Inl err, t')
           | Inr (code, msg) \<Rightarrow>
               if code = 0 then Some (Inr e, t')
               else errors_loop t' cmd (e @ [(code, msg)])))"

definition errors :: "driver \<Rightarrow> ((error + (int \<times> string) list) \<times> driver) option" where
  "errors d =
     (if d_error_command d = [] then Some (Inr [], d)
      else case d_ins d of
             None \<Rightarrow> Some (Inl AttributeError, d)
           | Some t \<Rightarrow>
               (case errors_loop t (d_error_command d) [] of
                  None \<Rightarrow> None
                | Some (r, t') \<Rightarrow> Some (r, d\<lparr>d_ins := Some t'\<rparr>)))"

definition check_errors_and_log :: "driver \<Rightarrow> ((error + unit) \<times> driver) option" where
  "check_errors_and_log d =
     (case errors d of
        None \<Rightarrow> None
      | Some (Inl e, d') \<Rightarrow> Some (Inl e, d')
      | Some (Inr errs, d') \<Rightarrow> Some (Inr (), d'))"

text \<open>
  The primitives as the driver offers them: nothing happens without a transport, and
  after a call that succeeded the error queue is drained if \<open>check_errors\<close> is set.
\<close>

definition checked ::
  "driver \<Rightarrow> bool \<Rightarrow> (error + 'a) \<times> driver \<Rightarrow> ((error + 'a) \<times> driver) option" where
  "checked d check_errors r =
     (if d_ins d = None then Some r
      else case r of
             (Inl e, d') \<Rightarrow> Some (Inl e, d')
           | (Inr res, d') \<Rightarrow>
               if check_errors
               then (case check_errors_and_log d' of
                       None \<Rightarrow> None
                     | Some (Inl e, d'') \<Rightarrow> Some (Inl e, d'')
                     | Some (Inr u, d'') \<Rightarrow> Some (Inr res, d''))
               else Some (Inr res, d'))"

definition query :: "driver \<Rightarrow> string \<Rightarrow> bool \<Rightarrow> ((error + string option) \<times> driver) option" where
  "query d msg check_errors = checked d check_errors (query_io d msg)"

definition query_ascii_values ::
  "driver \<Rightarrow> string \<Rightarrow> pyval list \<Rightarrow> bool \<Rightarrow> ((error + rat list option) \<times> driver) option" where
  "query_ascii_values d msg args check_errors =
     checked d check_errors (query_ascii_values_io d msg args)"

definition query_binary_values ::
  "driver \<Rightarrow> string \<Rightarrow> pyval list \<Rightarrow> bool \<Rightarrow> ((error + rat list option) \<times> driver) option" where
  "query_binary_values d msg args check_errors =
     checked d check_errors (query_binary_values_io d msg args)"

definition write_message :: "driver \<Rightarrow> string \<Rightarrow> bool \<Rightarrow> ((error + ret) \<times> driver) option" where
  "write_message d msg check_errors = checked d check_errors (write_io d msg)"

definition write_ascii_values ::
  "driver \<Rightarrow> string \<Rightarrow> pyval \<Rightarrow> pyval list \<Rightarrow> bool \<Rightarrow> ((error + ret) \<times> driver) option" where
  "write_ascii_values d msg vals args check_errors =
     checked d check_errors (write_ascii_values_io d msg vals args)"

definition write_binary_values ::
  "binblock \<Rightarrow> driver \<Rightarrow> string \<Rightarrow> pyval \<Rightarrow> pyval \<Rightarrow> pyval \<Rightarrow> pyval list \<Rightarrow> bool
     \<Rightarrow> ((error + ret) \<times> driver) option" where
  "write_binary_values bb d msg vals datatype is_big_endian args check_errors =
     checked d check_errors (write_binary_values_io bb d msg vals datatype is_big_endian args)"

text \<open>\<open>close\<close>: the close hook of \<open>BaseDriver\<close> does nothing; then the transport is closed.\<close>

definition close :: "driver \<Rightarrow> (error + unit) \<times> driver" where
  "close d =
     (case d_ins d of
        None \<Rightarrow> (Inr (), d)
      | Some t \<Rightarrow>
          (case ins_do t Close of
             (Some e, t') \<Rightarrow> (Inl e, d\<lparr>d_ins := Some t'\<rparr>)
           | (None, t') \<Rightarrow> (Inr (), d\<lparr>d_ins := Some t'\<rparr>)))"

text \<open>The calls the transport of a driver has received; none without a transport.\<close>

definition calls_of :: "driver \<Rightarrow> call list" where
  "calls_of d = (case d_ins d of None \<Rightarrow> [] | Some t \<Rightarrow> t_calls t)"


subsection \<open>The quantity classes\<close>

text \<open>
  A method takes the keyword arguments of the call as one list and picks its named
  parameters (\<open>ch\<close>, \<open>unit\<close>) out of it; what is left is \<open>**kw\<close>. A parameter that
  is absent or \<open>None\<close> falls back to the attribute of the quantity. The guard
  \<open>self.get_cmd is not ''\<close> compares with the empty string. Each method returns its
  result or exception, the quantity, and the driver the quantity refers to.
\<close>

definition arg_or :: "string \<Rightarrow> kwargs \<Rightarrow> pyval \<Rightarrow> pyval" where
  "arg_or k kw dflt = (if kw_get k kw = VNone then dflt else kw_get k kw)"

definition Quantity_getValue ::
  "formatter \<Rightarrow> driver option \<Rightarrow> quantity \<Rightarrow> kwargs
     \<Rightarrow> (error + pyval) \<times> quantity \<times> driver option" where
  "Quantity_getValue fmt drv q kw = (Inr (q_value q), q, drv)"

definition Quantity_setValue ::
  "formatter \<Rightarrow> driver option \<Rightarrow> quantity \<Rightarrow> pyval \<Rightarrow> kwargs
     \<Rightarrow> (error + unit) \<times> quantity \<times> driver option" where
  "Quantity_setValue fmt drv q v kw =
     (let q' = q\<lparr>q_value := v\<rparr>;
          ch = arg_or ''ch'' kw (q_ch q);
          unit = arg_or ''unit'' kw (q_unit q);
          rest = kw_del ''unit'' (kw_del ''ch'' kw)
      in case drv of
           None \<Rightarrow> (Inr (), q', drv)
         | Some d \<Rightarrow>
             if q_set_cmd q \<noteq> [] then
               (case fmt (q_set_cmd q) ((''value'', v) # (''unit'', unit) # (''ch'', ch) # rest) of
                  Inl e \<Rightarrow> (Inl e, q', drv)
                | Inr cmd \<Rightarrow>
                    (case write_io d cmd of
                       (Inl e, d') \<Rightarrow> (Inl e, q', Some d')
                     | (Inr r, d') \<Rightarrow> (Inr (), q', Some d')))
             else (Inr (), q', drv))"

text \<open>The default conversion arguments of the two value queries.\<close>

definition ascii_defaults :: "pyval list" where
  "ascii_defaults = [VStr ''f'', VStr '','', VNone]"

definition binary_defaults :: "pyval list" where
  "binary_defaults = [VStr ''f'', VBool False, VNone, VStr ''ieee'']"

definition QReal_getValue ::
  "formatter \<Rightarrow> driver option \<Rightarrow> quantity \<Rightarrow> kwargs
     \<Rightarrow> (error + pyval) \<times> quantity \<times> driver option" where
  "QReal_getValue fmt drv q kw =
     (let ch = arg_or ''ch'' kw (q_ch q);
          rest = kw_del ''ch'' kw
      in case drv of
           None \<Rightarrow> (Inr (q_value q), q, drv)
         | Some d \<Rightarrow>
             if q_get_cmd q \<noteq> [] then
               (case fmt (q_get_cmd q) ((''ch'', ch) # rest) of
                  Inl e \<Rightarrow> (Inl e, q, drv)
                | Inr cmd \<Rightarrow>
                    (case query_ascii_values_io d cmd ascii_defaults of
                       (Inl e, d') \<Rightarrow> (Inl e, q, Some d')
                     | (Inr None, d') \<Rightarrow> (Inl TypeError, q, Some d')
                     | (Inr (Some []), d') \<Rightarrow> (Inl IndexError, q, Some d')
                     | (Inr (Some (x # xs)), d') \<Rightarrow>
                         (Inr (VFloat x), q\<lparr>q_value := VFloat x\<rparr>, Some d')))
             else (Inr (q_value q), q, drv))"

definition QInteger_getValue ::
  "formatter \<Rightarrow> driver option \<Rightarrow> quantity \<Rightarrow> kwargs
     \<Rightarrow> (error + pyval) \<times> quantity \<times> driver option" where
  "QInteger_getValue fmt drv q kw =
     (case QReal_getValue fmt drv q kw of
        (Inl e, q', drv') \<Rightarrow> (Inl e, q', drv')
      | (Inr r, q', drv') \<Rightarrow>
          (case py_int (q_value q') of
             Inl e \<Rightarrow> (Inl e, q', drv')
           | Inr n \<Rightarrow> (Inr (VInt n), q', drv')))"

definition QBool_getValue ::
  "formatter \<Rightarrow> driver option \<Rightarrow> quantity \<Rightarrow> kwargs
     \<Rightarrow> (error + pyval) \<times> quantity \<times> driver option" where
  "QBool_getValue fmt drv q kw =
     (case QInteger_getValue fmt drv q kw of
        (Inl e, q', drv') \<Rightarrow> (Inl e, q', drv')
      | (Inr r, q', drv') \<Rightarrow>
          (case py_truth r of
             Inl e \<Rightarrow> (Inl e, q', drv')
           | Inr b \<Rightarrow> (Inr (VBool b), q', drv')))"

definition QString_getValue ::
  "formatter \<Rightarrow> driver option \<Rightarrow> quantity \<Rightarrow> kwargs
     \<Rightarrow> (error + pyval) \<times> quantity \<times> driver option" where
  "QString_getValue fmt drv q kw =
     (let ch = arg_or ''ch'' kw (q_ch q);
          rest = kw_del ''ch'' kw
      in case drv of
           None \<Rightarrow> (Inr (q_value q), q, drv)
         | Some d \<Rightarrow>
             if q_get_cmd q \<noteq> [] then
               (case fmt (q_get_cmd q) ((''ch'', ch) # rest) of
                  Inl e \<Rightarrow> (Inl e, q, drv)
                | Inr cmd \<Rightarrow>
                    (case query_io d cmd of
                       (Inl e, d') \<Rightarrow> (Inl e, q, Some d')
                     | (Inr None, d') \<Rightarrow> (Inl AttributeError, q, Some d')
                     | (Inr (Some res), d') \<Rightarrow>
                         (let v = VStr (strip_chars (\<lambda>c. c \<in> set [CHR 0x0A, CHR 0x22, CHR 0x27, CHR 0x20]) res)
                          in (Inr v, q\<lparr>q_value := v\<rparr>, Some d'))))
             else (Inr (q_value q), q, drv))"

definition QVector_getValue ::
  "formatter \<Rightarrow> driver option \<Rightarrow> quantity \<Rightarrow> kwargs
     \<Rightarrow> (error + pyval) \<times> quantity \<times> driver option" where
  "QVector_getValue fmt drv q kw =
     (let ch = arg_or ''ch'' kw (q_ch q);
          rest = kw_del ''ch'' kw
      in case drv of
           None \<Rightarrow> (Inr (q_value q), q, drv)
         | Some d \<Rightarrow>
             if q_get_cmd q \<noteq> [] then
               (case fmt (q_get_cmd q) ((''ch'', ch) # rest) of
                  Inl e \<Rightarrow> (Inl e, q, drv)
                | Inr cmd \<Rightarrow>
                    (case py_truth (kw_get ''binary'' rest) of
                       Inl e \<Rightarrow> (Inl e, q, drv)
                     | Inr binary \<Rightarrow>
                         (case (if binary then query_binary_values_io d cmd binary_defaults
                                else query_ascii_values_io d cmd ascii_defaults) of
                            (Inl e, d') \<Rightarrow> (Inl e, q, Some d')
                          | (Inr None, d') \<Rightarrow> (Inr VArrayNone, q\<lparr>q_value := VArrayNone\<rparr>, Some d')
                          | (Inr (Some xs), d') \<Rightarrow>
                              (Inr (VArray xs), q\<lparr>q_value := VArray xs\<rparr>, Some d'))))
             else (Inr (q_value q), q, drv))"

text \<open>\<open>getValue\<close> as the class of the quantity resolves it.\<close>

definition Q_getValue ::
  "formatter \<Rightarrow> driver option \<Rightarrow> quantity \<Rightarrow> kwargs
     \<Rightarrow> (error + pyval) \<times> quantity \<times> driver option" where
  "Q_getValue fmt drv q kw =
     (case q_kind q of
        KQuantity \<Rightarrow> Quantity_getValue fmt drv q kw
      | KReal \<Rightarrow> QReal_getValue fmt drv q kw
      | KInteger \<Rightarrow> QInteger_getValue fmt drv q kw
      | KString \<Rightarrow> QString_getValue fmt drv q kw
      | KOption \<Rightarrow> QString_getValue fmt drv q kw
      | KBool \<Rightarrow> QBool_getValue fmt drv q kw
      | KVector \<Rightarrow> QVector_getValue fmt drv q kw
      | KList \<Rightarrow> Quantity_getValue fmt drv q kw)"

subsection \<open>Option quantities\<close>

text \<open>
  \<open>dict(self.options)\<close> needs every label hashable. A later pair with an equal label
  replaces an earlier one, so a lookup finds the last.
\<close>

definition py_dict :: "(pyval \<times> pyval) list \<Rightarrow> error + (pyval \<times> pyval) list" where
  "py_dict pairs = (if list_all (\<lambda>p. hashable (fst p)) pairs then Inr pairs else Inl TypeError)"

definition dict_find :: "(pyval \<times> pyval) list \<Rightarrow> pyval \<Rightarrow> pyval option" where
  "dict_find pairs v = map_option snd (find (\<lambda>p. py_eq (fst p) v) (rev pairs))"

definition dict_contains :: "(pyval \<times> pyval) list \<Rightarrow> pyval \<Rightarrow> error + bool" where
  "dict_contains pairs v =
     (if hashable v then Inr (dict_find pairs v \<noteq> None) else Inl TypeError)"

definition dict_item :: "(pyval \<times> pyval) list \<Rightarrow> pyval \<Rightarrow> error + pyval" where
  "dict_item pairs v =
     (if hashable v
      then (case dict_find pairs v of None \<Rightarrow> Inl KeyError | Some c \<Rightarrow> Inr c)
      else Inl TypeError)"

definition QOption_setValue ::
  "formatter \<Rightarrow> driver option \<Rightarrow> quantity \<Rightarrow> pyval \<Rightarrow> kwargs
     \<Rightarrow> (error + unit) \<times> quantity \<times> driver option" where
  "QOption_setValue fmt drv q v kw =
     (let q' = q\<lparr>q_value := v\<rparr>;
          ch = arg_or ''ch'' kw (q_ch q);
          rest = kw_del ''ch'' kw
      in case drv of
           None \<Rightarrow> (Inr (), q', drv)
         | Some d \<Rightarrow>
             if q_set_cmd q \<noteq> [] then
               (case py_dict (q_options q) of
                  Inl e \<Rightarrow> (Inl e, q', drv)
                | Inr options \<Rightarrow>
                    (case dict_contains options v of
                       Inl e \<Rightarrow> (Inl e, q', drv)
                     | Inr False \<Rightarrow> (Inr (), q', drv)
                     | Inr True \<Rightarrow>
                         (case dict_item options v of
                            Inl e \<Rightarrow> (Inl e, q', drv)
                          | Inr code \<Rightarrow>
                              if ''option'' \<in> fst ` set rest then (Inl TypeError, q', drv)
                              else
                                (case fmt (q_set_cmd q) ((''option'', code) # (''ch'', ch) # rest) of
                                   Inl e \<Rightarrow> (Inl e, q', drv)
                                 | Inr cmd \<Rightarrow>
                                     (case write_io d cmd of
                                        (Inl e, d') \<Rightarrow> (Inl e, q', Some d')
                                      | (Inr r, d') \<Rightarrow> (Inr (), q', Some d'))))))
             else (Inr (), q', drv))"

text \<open>The loop of \<open>getIndex\<close> over \<open>enumerate(self.options)\<close>, from index \<open>i\<close>.\<close>

fun index_of :: "(pyval \<times> pyval) list \<Rightarrow> pyval \<Rightarrow> nat \<Rightarrow> error + pyval" where
  "index_of [] v i = Inr VNone"
| "index_of (pair # pairs) v i =
     (case py_eq_test (fst pair) v of
        Inl e \<Rightarrow> Inl e
      | Inr True \<Rightarrow> Inr (VInt (int i))
      | Inr False \<Rightarrow> index_of pairs v (Suc i))"

definition QOption_getIndex ::
  "formatter \<Rightarrow> driver option \<Rightarrow> quantity \<Rightarrow> kwargs
     \<Rightarrow> (error + pyval) \<times> quantity \<times> driver option" where
  "QOption_getIndex fmt drv q kw =
     (case QString_getValue fmt drv q kw of
        (Inl e, q', drv') \<Rightarrow> (Inl e, q', drv')
      | (Inr v, q', drv') \<Rightarrow>
          if v = VNone then (Inr VNone, q', drv')
          else (index_of (q_options q') v 0, q', drv'))"

definition QOption_getCmdOption ::
  "formatter \<Rightarrow> driver option \<Rightarrow> quantity \<Rightarrow> kwargs
     \<Rightarrow> (error + pyval) \<times> quantity \<times> driver option" where
  "QOption_getCmdOption fmt drv q kw =
     (case QString_getValue fmt drv q kw of
        (Inl e, q', drv') \<Rightarrow> (Inl e, q', drv')
      | (Inr v, q', drv') \<Rightarrow>
          if v = VNone then (Inr VNone, q', drv')
          else (case py_dict (q_options q') of
                  Inl e \<Rightarrow> (Inl e, q', drv')
                | Inr options \<Rightarrow> (dict_item options v, q', drv')))"

definition Q_setValue ::
  "formatter \<Rightarrow> driver option \<Rightarrow> quantity \<Rightarrow> pyval \<Rightarrow> kwargs
     \<Rightarrow> (error + unit) \<times> quantity \<times> driver option" where
  "Q_setValue fmt drv q v kw =
     (if q_kind q = KOption then QOption_setValue fmt drv q v kw
      else Quantity_setValue fmt drv q v kw)"

text \<open>Only \<open>QOption\<close> has \<open>getIndex\<close> and \<open>getCmdOption\<close>.\<close>

definition Q_getIndex ::
  "formatter \<Rightarrow> driver option \<Rightarrow> quantity \<Rightarrow> kwargs
     \<Rightarrow> (error + pyval) \<times> quantity \<times> driver option" where
  "Q_getIndex fmt drv q kw =
     (if q_kind q = KOption then QOption_getIndex fmt drv q kw
      else (Inl AttributeError, q, drv))"

definition Q_getCmdOption ::
  "formatter \<Rightarrow> driver option \<Rightarrow> quantity \<Rightarrow> kwargs
     \<Rightarrow> (error + pyval) \<times> quantity \<times> driver option" where
  "Q_getCmdOption fmt drv q kw =
     (if q_kind q = KOption then QOption_getCmdOption fmt drv q kw
      else (Inl AttributeError, q, drv))"

subsection \<open>Dispatch by name\<close>

text \<open>
  The quantities of a driver refer to the driver itself (\<open>_add_quant\<close>). After a
  method of the quantity \<open>name\<close> has run, the driver is the one the method's I/O has
  left, holding the quantity as the method has left it.
\<close>

definition put_quantity :: "string \<Rightarrow> 'a \<times> quantity \<times> driver option \<Rightarrow> driver \<Rightarrow> 'a \<times> driver" where
  "put_quantity name r d =
     (case r of
        (res, q', drv') \<Rightarrow>
          (let d' = (case drv' of None \<Rightarrow> d | Some d1 \<Rightarrow> d1)
           in (res, d'\<lparr>d_quantities := (d_quantities d')(name \<mapsto> q')\<rparr>)))"

definition getValue :: "formatter \<Rightarrow> driver \<Rightarrow> string \<Rightarrow> kwargs \<Rightarrow> (error + pyval) \<times> driver" where
  "getValue fmt d name kw =
     (case d_quantities d name of
        Some q \<Rightarrow> put_quantity name (Q_getValue fmt (Some d) q kw) d
      | None \<Rightarrow> (Inr VNone, d))"

definition getIndex :: "formatter \<Rightarrow> driver \<Rightarrow> string \<Rightarrow> kwargs \<Rightarrow> (error + pyval) \<times> driver" where
  "getIndex fmt d name kw =
     (case d_quantities d name of
        Some q \<Rightarrow> put_quantity name (Q_getIndex fmt (Some d) q kw) d
      | None \<Rightarrow> (Inr VNone, d))"

definition getCmdOption :: "formatter \<Rightarrow> driver \<Rightarrow> string \<Rightarrow> kwargs \<Rightarrow> (error + pyval) \<times> driver" where
  "getCmdOption fmt d name kw =
     (case d_quantities d name of
        Some q \<Rightarrow> put_quantity name (Q_getCmdOption fmt (Some d) q kw) d
      | None \<Rightarrow> (Inr VNone, d))"

text \<open>\<open>setValue\<close> returns \<open>self\<close>: the driver in the second component.\<close>

definition setValue ::
  "formatter \<Rightarrow> driver \<Rightarrow> string \<Rightarrow> pyval \<Rightarrow> kwargs \<Rightarrow> (error + unit) \<times> driver" where
  "setValue fmt d name v kw =
     (case d_quantities d name of
        Some q \<Rightarrow> put_quantity name (Q_setValue fmt (Some d) q v kw) d
      | None \<Rightarrow> (Inr (), d))"

subsection \<open>Constructing a driver\<close>

text \<open>
  \<open>_add_quant\<close> stores a copy of the template under its name; \<open>__init__\<close> does so
  for each template of the class, in order, and gives the transport its timeout in
  milliseconds. The templates and the error-query command are attributes of the class.
\<close>

definition u_add_quant :: "quantity \<Rightarrow> (string \<rightharpoonup> quantity) \<Rightarrow> (string \<rightharpoonup> quantity)" where
  "u_add_quant quant quantities = quantities(q_name quant \<mapsto> quant)"

definition BaseDriver_init ::
  "quantity list \<Rightarrow> string \<Rightarrow> transport option \<Rightarrow> pyval \<Rightarrow> pyval \<Rightarrow> rat \<Rightarrow> driver" where
  "BaseDriver_init quants error_command ins addr model timeout =
     \<lparr>d_addr = addr,
      d_ins = map_option (\<lambda>t. t\<lparr>t_timeout := timeout * 1000\<rparr>) ins,
      d_timeout = timeout,
      d_model = model,
      d_quantities = fold u_add_quant quants Map.empty,
      d_error_command = error_command\<rparr>"

definition set_timeout :: "driver \<Rightarrow> rat \<Rightarrow> driver" where
  "set_timeout d t =
     d\<lparr>d_timeout := t, d_ins := map_option (\<lambda>ins. ins\<lparr>t_timeout := t * 1000\<rparr>) (d_ins d)\<rparr>"

section \<open>Resolving a resource address\<close>

text \<open>
  What \<open>_parse_resource_name\<close> and \<open>_open_visa_resource\<close> return is a dictionary;
  here a record of its possible keys, \<open>None\<close> for a key that is absent or holds \<open>None\<close>.
  A leading underscore of a source name is written \<open>u_\<close>.
\<close>

record resource_info =
  i_type :: "string option"
  i_ins :: "transport option"
  i_company :: "string option"
  i_model :: "string option"
  i_version :: "string option"
  i_systemID :: "int option"
  i_boardID :: "int option"
  i_addr :: string

text \<open>
  The pattern \<open>ats_addr\<close>,
  \<^verbatim>\<open>^(ATS9360|ATS9850|ATS9870)::SYSTEM([0-9]+)::([0-9]+)(|::INSTR)$\<close>, searched in the
  address: the three groups of a match. \<open>$\<close> matches at the end of the string and
  before a line feed that ends it. A run of digits is followed by a colon or by the end,
  so taking the longest run is what the pattern does.
\<close>

definition at_end :: "string \<Rightarrow> bool" where
  "at_end s = (s = [] \<or> s = [CHR 0x0A])"

definition ats_addr :: "string \<Rightarrow> (string \<times> string \<times> string) option" where
  "ats_addr addr =
     (case find (\<lambda>m. prefix m addr) [''ATS9360'', ''ATS9850'', ''ATS9870''] of
        None \<Rightarrow> None
      | Some m \<Rightarrow>
          (let r1 = drop (length m) addr in
           if prefix ''::SYSTEM'' r1 then
             (let r2 = drop 8 r1;
                  g2 = takeWhile is_digit r2;
                  r3 = dropWhile is_digit r2
              in if g2 \<noteq> [] \<and> prefix ''::'' r3 then
                   (let r4 = drop 2 r3;
                        g3 = takeWhile is_digit r4;
                        r5 = dropWhile is_digit r4
                    in if g3 \<noteq> [] \<and> (at_end r5 \<or> (prefix ''::INSTR'' r5 \<and> at_end (drop 7 r5)))
                       then Some (m, g2, g3)
                       else None)
                 else None)
           else None))"

definition u_parse_ats_resource_name ::
  "string \<times> string \<times> string \<Rightarrow> string \<Rightarrow> error + resource_info" where
  "u_parse_ats_resource_name m addr =
     (case m of
        (model, g2, g3) \<Rightarrow>
          (case py_int_str g2 of
             Inl e \<Rightarrow> Inl e
           | Inr systemID \<Rightarrow>
               (case py_int_str g3 of
                  Inl e \<Rightarrow> Inl e
                | Inr boardID \<Rightarrow>
                    Inr \<lparr>i_type = Some ''ATS'', i_ins = None, i_company = Some ''AlazarTech'',
                         i_model = Some model, i_version = None, i_systemID = Some systemID,
                         i_boardID = Some boardID, i_addr = addr\<rparr>)))"

definition u_parse_resource_name :: "string \<Rightarrow> error + resource_info" where
  "u_parse_resource_name addr =
     (case ats_addr addr of
        Some m \<Rightarrow> u_parse_ats_resource_name m addr
      | None \<Rightarrow>
          Inr \<lparr>i_type = Some ''Visa'', i_ins = None, i_company = None, i_model = None,
               i_version = None, i_systemID = None, i_boardID = None, i_addr = addr\<rparr>)"

text \<open>
  The resource manager \<open>rm\<close> of the bus library: the addresses it has been asked to
  open, in order, and the transport (or exception) each address yields.
\<close>

record resource_manager =
  rm_opened :: "string list"
  rm_resources :: "string \<Rightarrow> error + transport"

definition open_resource :: "resource_manager \<Rightarrow> string \<Rightarrow> (error + transport) \<times> resource_manager" where
  "open_resource rm addr = (rm_resources rm addr, rm\<lparr>rm_opened := rm_opened rm @ [addr]\<rparr>)"

text \<open>\<open>xs[i]\<close> for an index that is not negative.\<close>

definition item :: "'a list \<Rightarrow> nat \<Rightarrow> error + 'a" where
  "item xs i = (if i < length xs then Inr (xs ! i) else Inl IndexError)"

definition u_open_visa_resource ::
  "resource_manager \<Rightarrow> string \<Rightarrow> (error + resource_info) \<times> resource_manager" where
  "u_open_visa_resource rm addr =
     (case open_resource rm addr of
        (Inl e, rm') \<Rightarrow> (Inl e, rm')
      | (Inr ins, rm') \<Rightarrow>
          (case ins_query ins ''*IDN?'' of
             (Inl e, ins') \<Rightarrow> (Inl e, rm')
           | (Inr reply, ins') \<Rightarrow>
               (let IDN = py_split '','' reply in
                case item IDN 0 of
                  Inl e \<Rightarrow> (Inl e, rm')
                | Inr f0 \<Rightarrow>
                    (case item IDN 1 of
                       Inl e \<Rightarrow> (Inl e, rm')
                     | Inr f1 \<Rightarrow>
                         (case item IDN 3 of
                            Inl e \<Rightarrow> (Inl e, rm')
                          | Inr f3 \<Rightarrow>
                              (Inr \<lparr>i_type = None, i_ins = Some ins',
                                    i_company = Some (py_strip f0), i_model = Some (py_strip f1),
                                    i_version = Some (py_strip f3), i_systemID = None,
                                    i_boardID = None, i_addr = addr\<rparr>, rm'))))))"

section \<open>The driver manager\<close>

text \<open>
  \<open>_load_driver\<close> imports the module named by the driver identifier and takes its
  \<open>Driver\<close> class. What a module holds is not this file's: the import is a parameter,
  and a class is its constructor, called with the descriptor and the keyword arguments
  that \<open>info.update(kw)\<close> has merged into it, and its \<open>performOpen\<close> hook.
\<close>

record driver_class =
  new_driver :: "resource_info \<Rightarrow> kwargs \<Rightarrow> error + driver"
  performOpen :: "driver \<Rightarrow> error + driver"

definition u_load_driver ::
  "(string \<Rightarrow> error + driver_class) \<Rightarrow> string \<Rightarrow> error + driver_class" where
  "u_load_driver import_module driver_name = import_module driver_name"

definition u_open_resource ::
  "(string \<Rightarrow> error + driver_class) \<Rightarrow> resource_manager \<Rightarrow> string \<Rightarrow> string \<Rightarrow> kwargs
     \<Rightarrow> (error + driver) \<times> resource_manager" where
  "u_open_resource import_module rm addr driver_name kw =
     (case u_parse_resource_name addr of
        Inl e \<Rightarrow> (Inl e, rm)
      | Inr info0 \<Rightarrow>
          (case (if i_type info0 = Some ''Visa'' then u_open_visa_resource rm addr
                 else (Inr info0, rm)) of
             (Inl e, rm') \<Rightarrow> (Inl e, rm')
           | (Inr info, rm') \<Rightarrow>
               (case u_load_driver import_module driver_name of
                  Inl e \<Rightarrow> (Inl e, rm')
                | Inr Driver \<Rightarrow>
                    (case new_driver Driver info kw of
                       Inl e \<Rightarrow> (Inl e, rm')
                     | Inr ins \<Rightarrow>
                         (case performOpen Driver ins of
                            Inl e \<Rightarrow> (Inl e, rm')
                          | Inr ins' \<Rightarrow> (Inr ins', rm'))))))"

text \<open>
  The record of the instrument registry, and the argument of \<open>open\<close>: a logical name
  (a \<open>str\<close>) or such a record.
\<close>

record instrument =
  ins_name :: string
  ins_address :: string
  ins_driver :: string

datatype instrument_arg = ByName string | ByRecord instrument

text \<open>
  The drivers the manager has built are objects: \<open>m_objects\<close> holds them, and a driver
  is referred to by its position there. \<open>__instr\<close> maps a logical name to the reference
  of its driver.
\<close>

record manager =
  m_instr :: "string \<rightharpoonup> nat"
  m_objects :: "driver list"
  m_rm :: resource_manager

definition DriverManager_init :: "resource_manager \<Rightarrow> manager" where
  "DriverManager_init rm = \<lparr>m_instr = Map.empty, m_objects = [], m_rm = rm\<rparr>"

text \<open>
  The first statement of \<open>open\<close>. A record is taken as it is. For a name the
  statement evaluates \<open>db.query.getInstrumentByName(instrument)\<close>, and the module
  binds no name \<open>db\<close>: it imports \<open>copy\<close>, \<open>importlib\<close>, \<open>logging\<close>, \<open>os\<close>,
  \<open>re\<close>, \<open>string\<close>, \<open>numpy\<close>, \<open>quantities\<close>, \<open>pyvisa\<close> and two names of
  \<open>util\<close>, and assigns none. Evaluating \<open>db\<close> raises NameError.
\<close>

definition instrument_of :: "instrument_arg \<Rightarrow> error + instrument" where
  "instrument_of arg = (case arg of ByName n \<Rightarrow> Inl NameError | ByRecord i \<Rightarrow> Inr i)"

definition DriverManager_open ::
  "(string \<Rightarrow> error + driver_class) \<Rightarrow> manager \<Rightarrow> instrument_arg \<Rightarrow> kwargs
     \<Rightarrow> (error + nat) \<times> manager" where
  "DriverManager_open import_module m arg kw =
     (case instrument_of arg of
        Inl e \<Rightarrow> (Inl e, m)
      | Inr instrument \<Rightarrow>
          (case m_instr m (ins_name instrument) of
             Some r \<Rightarrow> (Inr r, m)
           | None \<Rightarrow>
               (case u_open_resource import_module (m_rm m)
                       (ins_address instrument) (ins_driver instrument) kw of
                  (Inl e, rm') \<Rightarrow> (Inl e, m\<lparr>m_rm := rm'\<rparr>)
                | (Inr d, rm') \<Rightarrow>
                    (Inr (length (m_objects m)),
                     m\<lparr>m_instr := (m_instr m)(ins_name instrument \<mapsto> length (m_objects m)),
                       m_objects := m_objects m @ [d],
                       m_rm := rm'\<rparr>))))"

section \<open>The binary block codec\<close>

text \<open>
  Modelled from the spec: \<open>IEEE_488_2_BinBlock\<close>, which \<open>write_binary_values\<close>
  imports from the module \<open>util\<close>, and the decoder of the transport; neither is among
  the sources. What follows is section 4.2 of the specification. A block is
  \<open>#<d><n><payload>\<close>: \<open>n\<close> is the byte length of the payload in decimal digits and
  \<open>d\<close>, one digit, the number of those digits. The decoder reads \<open>#\<close>, one digit
  \<open>d\<close>, \<open>d\<close> digits as \<open>n\<close>, and then exactly \<open>n\<close> bytes; what follows them is left
  over. Bytes are characters.
\<close>





















section \<open>Example objects\<close>

text \<open>A formatter for templates without slots, which are the command as they stand.\<close>

definition plain_formatter :: formatter where
  "plain_formatter template kw = Inr template"

text \<open>
  An instrument that answers every text query with the same text and every value query
  with one number, and raises on every call after \<open>close\<close>, as a released session does.
\<close>

definition scope_transport :: transport where
  "scope_transport =
     \<lparr>t_calls = [], t_timeout = 3000,
      t_text = (\<lambda>hist msg. if Close \<in> set hist then Inl VisaIOError else Inr ''NORM''),
      t_values = (\<lambda>hist c. if Close \<in> set hist then Inl VisaIOError else Inr [1]),
      t_done = (\<lambda>hist c. if Close \<in> set hist then Some VisaIOError else None)\<rparr>"

definition mode_options :: "(pyval \<times> pyval) list" where
  "mode_options = [(VStr ''Normal'', VStr ''NORM''), (VStr ''Average'', VStr ''AVER'')]"

definition mode_quantity :: quantity where
  "mode_quantity =
     \<lparr>q_name = ''Mode'', q_value = VNone, q_kind = KOption, q_unit = VNone, q_ch = VNone,
      q_get_cmd = [], q_set_cmd = '':ACQ:MODE %(option)s'', q_options = mode_options\<rparr>"



definition scope_driver :: driver where
  "scope_driver =
     \<lparr>d_addr = VStr ''TCPIP::10.0.0.5'', d_ins = Some scope_transport, d_timeout = 3,
      d_model = VStr ''DSO'', d_quantities = [''Mode'' \<mapsto> mode_quantity],
      d_error_command = ''SYST:ERR?''\<rparr>"






text \<open>
  A laboratory: one oscilloscope on the network, which answers every text query with
  \<open>reply\<close>; its registry record \<open>scope1\<close>; and one driver module, whose class is
  \<open>BaseDriver\<close> with one quantity.
\<close>

definition idn_transport :: "string \<Rightarrow> transport" where
  "idn_transport reply =
     \<lparr>t_calls = [], t_timeout = 0,
      t_text = (\<lambda>hist msg. Inr reply),
      t_values = (\<lambda>hist c. Inr []),
      t_done = (\<lambda>hist c. None)\<rparr>"

definition lab_rm :: "string \<Rightarrow> resource_manager" where
  "lab_rm reply =
     \<lparr>rm_opened = [],
      rm_resources = (\<lambda>addr. if addr = ''TCPIP::10.0.0.5'' then Inr (idn_transport reply)
                             else Inl VisaIOError)\<rparr>"

definition scope1 :: instrument where
  "scope1 = \<lparr>ins_name = ''scope1'', ins_address = ''TCPIP::10.0.0.5'', ins_driver = ''scope''\<rparr>"

definition plain_class :: driver_class where
  "plain_class =
     \<lparr>new_driver = (\<lambda>info kw.
        Inr (BaseDriver_init [mode_quantity] ''SYST:ERR?'' (i_ins info) (VStr (i_addr info))
               (case i_model info of None \<Rightarrow> VNone | Some m \<Rightarrow> VStr m) 3)),
      performOpen = Inr\<rparr>"

definition lab_modules :: "string \<Rightarrow> error + driver_class" where
  "lab_modules n = (if n = ''scope'' then Inr plain_class else Inl ImportError)"

section \<open>Unknown quantity names\<close>

text \<open>
  C9. For every name that is not a key of the driver's quantity mapping, \<open>getValue\<close>,
  \<open>getIndex\<close> and \<open>getCmdOption\<close> return \<open>None\<close> and \<open>setValue\<close> returns normally;
  none of them raises, and each leaves the driver, its quantities and its transport as
  they were.
\<close>

theorem unknown_name_absent:
  assumes "name \<notin> dom (d_quantities d)"
  shows "getValue fmt d name kw = (Inr VNone, d)
       \<and> getIndex fmt d name kw = (Inr VNone, d)
       \<and> getCmdOption fmt d name kw = (Inr VNone, d)
       \<and> setValue fmt d name v kw = (Inr (), d)"
  using assms
  by (simp add: getValue_def getIndex_def getCmdOption_def setValue_def domIff)

theorem unknown_name_absent_witness:
  "''Span'' \<notin> dom (d_quantities scope_driver)
   \<and> getValue plain_formatter scope_driver ''Span'' [] = (Inr VNone, scope_driver)
   \<and> getIndex plain_formatter scope_driver ''Span'' [] = (Inr VNone, scope_driver)
   \<and> getCmdOption plain_formatter scope_driver ''Span'' [] = (Inr VNone, scope_driver)
   \<and> setValue plain_formatter scope_driver ''Span'' (VInt 5) [] = (Inr (), scope_driver)"
proof -
  have absent: "''Span'' \<notin> dom (d_quantities scope_driver)"
    by (simp add: scope_driver_def)
  from unknown_name_absent [OF absent, of plain_formatter "[]" "VInt 5"] absent
  show ?thesis by simp
qed

section \<open>Reading a quantity without a command or a driver\<close>





section \<open>Option quantities\<close>

lemma dict_find_None: "dict_find pairs v = None \<longleftrightarrow> (\<forall>p\<in>set pairs. \<not> py_eq (fst p) v)"
  by (auto simp: dict_find_def find_None_iff)

text \<open>
  C5. For an Option quantity whose driver has a transport and whose set-command template
  is not empty, \<open>setValue\<close> with a value that equals no label of the option list
  caches the value and sends nothing: the driver and the call log of its transport are
  as before. (The call returns normally when the labels and the value are hashable, as
  strings and numbers are.)
\<close>

theorem option_unregistered_label:
  assumes "q_kind q = KOption"
    and "d_ins d = Some t"
    and "q_set_cmd q \<noteq> []"
    and "\<forall>p\<in>set (q_options q). \<not> py_eq (fst p) v"
  shows "Q_setValue fmt (Some d) q v kw =
           (if list_all (\<lambda>p. hashable (fst p)) (q_options q) \<and> hashable v then Inr () else Inl TypeError,
            q\<lparr>q_value := v\<rparr>, Some d)"
proof -
  from assms(4) have "dict_find (q_options q) v = None"
    by (simp add: dict_find_None)
  with assms(1,3) show ?thesis
    by (simp add: Q_setValue_def QOption_setValue_def Let_def py_dict_def dict_contains_def)
qed

theorem option_unregistered_label_witness:
  "q_kind mode_quantity = KOption \<and> d_ins scope_driver = Some scope_transport
   \<and> q_set_cmd mode_quantity \<noteq> []
   \<and> list_all (\<lambda>p. \<not> py_eq (fst p) (VStr ''Peak'')) (q_options mode_quantity)
   \<and> Q_setValue plain_formatter (Some scope_driver) mode_quantity (VStr ''Peak'') []
       = (Inr (), mode_quantity\<lparr>q_value := VStr ''Peak''\<rparr>, Some scope_driver)"
proof -
  have 1: "q_kind mode_quantity = KOption" and 3: "q_set_cmd mode_quantity \<noteq> []"
    by (simp_all add: mode_quantity_def)
  have 2: "d_ins scope_driver = Some scope_transport"
    by (simp add: scope_driver_def)
  have 4: "list_all (\<lambda>p. \<not> py_eq (fst p) (VStr ''Peak'')) (q_options mode_quantity)"
    by (simp add: mode_quantity_def mode_options_def py_eq_def)
  then have 5: "\<forall>p\<in>set (q_options mode_quantity). \<not> py_eq (fst p) (VStr ''Peak'')"
    by (simp add: list_all_iff)
  have 6: "list_all (\<lambda>p. hashable (fst p)) (q_options mode_quantity)"
    by (simp add: mode_quantity_def mode_options_def)
  from option_unregistered_label [OF 1 2 3 5, of plain_formatter "[]"] 6 1 2 3 4
  show ?thesis by simp
qed

lemma py_eq_test_scalar: "hashable a \<Longrightarrow> hashable b \<Longrightarrow> py_eq_test a b = Inr (py_eq a b)"
  by (cases a; cases b) (simp_all add: py_eq_test_def)

lemma index_of_absent:
  assumes "hashable v"
  shows "list_all (\<lambda>p. hashable (fst p)) pairs \<Longrightarrow> \<forall>p\<in>set pairs. \<not> py_eq (fst p) v
    \<Longrightarrow> index_of pairs v i = Inr VNone"
  using assms by (induction pairs arbitrary: i) (simp_all add: py_eq_test_scalar)

text \<open>
  C10. For an Option quantity with no get command whose cached value is not \<open>None\<close> and
  equals no label of the option list (labels and value being hashable scalars, as strings
  and numbers are), \<open>getCmdOption\<close> raises KeyError out of \<open>dict(self.options)[value]\<close>,
  while \<open>getIndex\<close> in the same state returns \<open>None\<close>.
\<close>

theorem unregistered_value_accessors:
  assumes "q_kind q = KOption"
    and "q_get_cmd q = []"
    and "q_value q \<noteq> VNone"
    and "hashable (q_value q)"
    and "list_all (\<lambda>p. hashable (fst p)) (q_options q)"
    and "\<forall>p\<in>set (q_options q). \<not> py_eq (fst p) (q_value q)"
  shows "Q_getCmdOption fmt drv q kw = (Inl KeyError, q, drv)
       \<and> Q_getIndex fmt drv q kw = (Inr VNone, q, drv)"
proof -
  have g: "QString_getValue fmt drv q kw = (Inr (q_value q), q, drv)"
    using assms(2) by (simp add: QString_getValue_def Let_def split: option.splits)
  have f: "dict_find (q_options q) (q_value q) = None"
    using assms(6) by (simp add: dict_find_None)
  have "Q_getCmdOption fmt drv q kw = (Inl KeyError, q, drv)"
    using assms(1,3,4,5) by (simp add: Q_getCmdOption_def QOption_getCmdOption_def g py_dict_def dict_item_def f)
  moreover have "Q_getIndex fmt drv q kw = (Inr VNone, q, drv)"
    using assms(1,3) index_of_absent [OF assms(4,5,6)]
    by (simp add: Q_getIndex_def QOption_getIndex_def g)
  ultimately show ?thesis by simp
qed

theorem unregistered_value_accessors_witness:
  "Q_getCmdOption plain_formatter None (mode_quantity\<lparr>q_value := VStr ''Peak''\<rparr>) []
     = (Inl KeyError, mode_quantity\<lparr>q_value := VStr ''Peak''\<rparr>, None)
   \<and> Q_getIndex plain_formatter None (mode_quantity\<lparr>q_value := VStr ''Peak''\<rparr>) []
     = (Inr VNone, mode_quantity\<lparr>q_value := VStr ''Peak''\<rparr>, None)"
proof -
  let ?q = "mode_quantity\<lparr>q_value := VStr ''Peak''\<rparr>"
  have 1: "q_kind ?q = KOption" and 2: "q_get_cmd ?q = []" and 3: "q_value ?q \<noteq> VNone"
    and 4: "hashable (q_value ?q)"
    by (simp_all add: mode_quantity_def)
  have 5: "list_all (\<lambda>p. hashable (fst p)) (q_options ?q)"
    by (simp add: mode_quantity_def mode_options_def)
  have 6: "\<forall>p\<in>set (q_options ?q). \<not> py_eq (fst p) (q_value ?q)"
    by (simp add: mode_quantity_def mode_options_def py_eq_def)
  from unregistered_value_accessors [OF 1 2 3 4 5 6] show ?thesis .
qed

section \<open>Draining the error queue\<close>

subsection \<open>Decimal digits and the reply format\<close>






















section \<open>Calls after close\<close>

lemma checked_default: "checked d False r = Some r"
  by (cases r) (auto simp: checked_def split: sum.splits)

lemma checked_no_transport: "d_ins d = None \<Longrightarrow> checked d check_errors r = Some r"
  by (simp add: checked_def)

lemma checked_failure: "checked d check_errors (Inl e, d') = Some (Inl e, d')"
  by (simp add: checked_def)

lemma checked_success:
  "d_ins d \<noteq> None \<Longrightarrow>
     checked d True (Inr res, d') =
       (case check_errors_and_log d' of
          None \<Rightarrow> None
        | Some (Inl e, d'') \<Rightarrow> Some (Inl e, d'')
        | Some (Inr u, d'') \<Rightarrow> Some (Inr res, d''))"
  by (auto simp: checked_def)

text \<open>
  C4, as the code has it. \<open>close\<close> calls the transport's \<open>close\<close> and keeps the
  handle: nothing sets \<open>self.ins\<close> to \<open>None\<close> and the driver has no closed state.
  Afterwards, on a driver that has no transport every read and write primitive is a no-op
  that returns \<open>None\<close>. On a driver that has one, every primitive, whatever
  \<open>check_errors\<close> is, hands its call to that same handle, after the \<open>Close\<close> it has
  received, and the outcome is the handle's: its exception is the exception of the call;
  its answer is what the call returns (\<open>self\<close> for a write), at once when
  \<open>check_errors\<close> is not set and after the error queue has been drained, through the
  same handle, when it is. Only \<open>write_ascii_values\<close> whose \<open>len(values)\<close> raises and
  \<open>write_binary_values\<close> whose block encoder raises fail before the handle is reached.
\<close>

theorem io_after_close:
  "(d_ins d = None \<longrightarrow>
      snd (close d) = d
    \<and> query (snd (close d)) msg check_errors = Some (Inr None, d)
    \<and> query_ascii_values (snd (close d)) msg args check_errors = Some (Inr None, d)
    \<and> query_binary_values (snd (close d)) msg args check_errors = Some (Inr None, d)
    \<and> write_message (snd (close d)) msg check_errors = Some (Inr RetNone, d)
    \<and> write_ascii_values (snd (close d)) msg vals args check_errors = Some (Inr RetNone, d)
    \<and> write_binary_values bb (snd (close d)) msg vals dt be args check_errors = Some (Inr RetNone, d))
 \<and> (d_ins d = Some t \<longrightarrow>
      (let hist = t_calls t @ [Close];
           d1 = d\<lparr>d_ins := Some (t\<lparr>t_calls := hist\<rparr>)\<rparr>;
           sent = (\<lambda>c. d\<lparr>d_ins := Some (t\<lparr>t_calls := hist @ [c]\<rparr>)\<rparr>)
       in snd (close d) = d1
        \<and> query d1 msg check_errors =
            checked d1 check_errors
              (case t_text t hist msg of Inl e \<Rightarrow> Inl e | Inr s \<Rightarrow> Inr (Some s), sent (Query msg))
        \<and> query_ascii_values d1 msg args check_errors =
            checked d1 check_errors
              (case t_values t hist (QueryAscii msg args) of Inl e \<Rightarrow> Inl e | Inr vs \<Rightarrow> Inr (Some vs),
               sent (QueryAscii msg args))
        \<and> query_binary_values d1 msg args check_errors =
            checked d1 check_errors
              (case t_values t hist (QueryBinary msg args) of Inl e \<Rightarrow> Inl e | Inr vs \<Rightarrow> Inr (Some vs),
               sent (QueryBinary msg args))
        \<and> write_message d1 msg check_errors =
            checked d1 check_errors
              (case t_done t hist (Write msg) of Some e \<Rightarrow> Inl e | None \<Rightarrow> Inr RetSelf,
               sent (Write msg))
        \<and> write_ascii_values d1 msg vals args check_errors =
            (case py_len vals of
               Inl e \<Rightarrow> Some (Inl e, d1)
             | Inr n \<Rightarrow>
                 checked d1 check_errors
                   (case t_done t hist (WriteAscii msg vals args) of
                      Some e \<Rightarrow> Inl e | None \<Rightarrow> Inr RetSelf,
                    sent (WriteAscii msg vals args)))
        \<and> write_binary_values bb d1 msg vals dt be args check_errors =
            (case bb vals dt be of
               Inl e \<Rightarrow> Some (Inl e, d1)
             | Inr bh \<Rightarrow>
                 checked d1 check_errors
                   (case t_done t hist (WriteBinary msg vals (dt # be # args)) of
                      Some e \<Rightarrow> Inl e | None \<Rightarrow> Inr RetSelf,
                    sent (WriteBinary msg vals (dt # be # args))))
        \<and> checked d1 check_errors (Inl e, d') = Some (Inl e, d')
        \<and> checked d1 False r = Some r
        \<and> checked d1 True (Inr res, d') =
            (case check_errors_and_log d' of
               None \<Rightarrow> None
             | Some (Inl e', d'') \<Rightarrow> Some (Inl e', d'')
             | Some (Inr u, d'') \<Rightarrow> Some (Inr res, d''))))"
proof (intro conjI impI)
  assume n: "d_ins d = None"
  then show c: "snd (close d) = d"
    by (simp add: close_def)
  from n show "query (snd (close d)) msg check_errors = Some (Inr None, d)"
    "query_ascii_values (snd (close d)) msg args check_errors = Some (Inr None, d)"
    "query_binary_values (snd (close d)) msg args check_errors = Some (Inr None, d)"
    "write_message (snd (close d)) msg check_errors = Some (Inr RetNone, d)"
    "write_ascii_values (snd (close d)) msg vals args check_errors = Some (Inr RetNone, d)"
    "write_binary_values bb (snd (close d)) msg vals dt be args check_errors = Some (Inr RetNone, d)"
    by (simp_all add: c query_def query_ascii_values_def query_binary_values_def write_message_def
        write_ascii_values_def write_binary_values_def checked_no_transport query_io_def
        query_ascii_values_io_def query_binary_values_io_def values_io_def write_io_def do_io_def
        write_ascii_values_io_def write_binary_values_io_def)
next
  assume s: "d_ins d = Some t"
  let ?hist = "t_calls t @ [Close]"
  let ?d1 = "d\<lparr>d_ins := Some (t\<lparr>t_calls := ?hist\<rparr>)\<rparr>"
  let ?sent = "\<lambda>c. d\<lparr>d_ins := Some (t\<lparr>t_calls := ?hist @ [c]\<rparr>)\<rparr>"
  have i: "d_ins ?d1 = Some (t\<lparr>t_calls := ?hist\<rparr>)"
    by (simp add: )
  have c: "snd (close d) = ?d1"
    using s by (simp add: close_def ins_do_def   split: option.splits)
  have q: "query ?d1 msg check_errors =
            checked ?d1 check_errors
              (case t_text t ?hist msg of Inl e \<Rightarrow> Inl e | Inr s \<Rightarrow> Inr (Some s), ?sent (Query msg))"
    by (simp add: query_def query_io_def i ins_query_def   split: sum.splits)
  have qa: "query_ascii_values ?d1 msg args check_errors =
            checked ?d1 check_errors
              (case t_values t ?hist (QueryAscii msg args) of Inl e \<Rightarrow> Inl e | Inr vs \<Rightarrow> Inr (Some vs),
               ?sent (QueryAscii msg args))"
    by (simp add: query_ascii_values_def query_ascii_values_io_def values_io_def i ins_values_def
          split: sum.splits)
  have qb: "query_binary_values ?d1 msg args check_errors =
            checked ?d1 check_errors
              (case t_values t ?hist (QueryBinary msg args) of Inl e \<Rightarrow> Inl e | Inr vs \<Rightarrow> Inr (Some vs),
               ?sent (QueryBinary msg args))"
    by (simp add: query_binary_values_def query_binary_values_io_def values_io_def i ins_values_def
          split: sum.splits)
  have io: "do_io ?d1 c = (case t_done t ?hist c of Some e \<Rightarrow> Inl e | None \<Rightarrow> Inr RetSelf, ?sent c)" for c
    by (simp add: do_io_def i ins_do_def   split: option.splits)
  have w: "write_message ?d1 msg check_errors =
            checked ?d1 check_errors
              (case t_done t ?hist (Write msg) of Some e \<Rightarrow> Inl e | None \<Rightarrow> Inr RetSelf,
               ?sent (Write msg))"
    by (simp add: write_message_def write_io_def io)
  have wa: "write_ascii_values ?d1 msg vals args check_errors =
            (case py_len vals of
               Inl e \<Rightarrow> Some (Inl e, ?d1)
             | Inr n \<Rightarrow>
                 checked ?d1 check_errors
                   (case t_done t ?hist (WriteAscii msg vals args) of
                      Some e \<Rightarrow> Inl e | None \<Rightarrow> Inr RetSelf,
                    ?sent (WriteAscii msg vals args)))"
    by (simp add: write_ascii_values_def write_ascii_values_io_def i io checked_failure split: sum.splits)
  have wb: "write_binary_values bb ?d1 msg vals dt be args check_errors =
            (case bb vals dt be of
               Inl e \<Rightarrow> Some (Inl e, ?d1)
             | Inr bh \<Rightarrow>
                 checked ?d1 check_errors
                   (case t_done t ?hist (WriteBinary msg vals (dt # be # args)) of
                      Some e \<Rightarrow> Inl e | None \<Rightarrow> Inr RetSelf,
                    ?sent (WriteBinary msg vals (dt # be # args))))"
    by (simp add: write_binary_values_def write_binary_values_io_def i io checked_failure
        split: sum.splits prod.splits)
  have k: "checked ?d1 True (Inr res, d') =
            (case check_errors_and_log d' of
               None \<Rightarrow> None
             | Some (Inl e', d'') \<Rightarrow> Some (Inl e', d'')
             | Some (Inr u, d'') \<Rightarrow> Some (Inr res, d''))"
    by (rule checked_success) (simp add: i)
  show "let hist = t_calls t @ [Close];
           d1 = d\<lparr>d_ins := Some (t\<lparr>t_calls := hist\<rparr>)\<rparr>;
           sent = (\<lambda>c. d\<lparr>d_ins := Some (t\<lparr>t_calls := hist @ [c]\<rparr>)\<rparr>)
       in snd (close d) = d1
        \<and> query d1 msg check_errors =
            checked d1 check_errors
              (case t_text t hist msg of Inl e \<Rightarrow> Inl e | Inr s \<Rightarrow> Inr (Some s), sent (Query msg))
        \<and> query_ascii_values d1 msg args check_errors =
            checked d1 check_errors
              (case t_values t hist (QueryAscii msg args) of Inl e \<Rightarrow> Inl e | Inr vs \<Rightarrow> Inr (Some vs),
               sent (QueryAscii msg args))
        \<and> query_binary_values d1 msg args check_errors =
            checked d1 check_errors
              (case t_values t hist (QueryBinary msg args) of Inl e \<Rightarrow> Inl e | Inr vs \<Rightarrow> Inr (Some vs),
               sent (QueryBinary msg args))
        \<and> write_message d1 msg check_errors =
            checked d1 check_errors
              (case t_done t hist (Write msg) of Some e \<Rightarrow> Inl e | None \<Rightarrow> Inr RetSelf,
               sent (Write msg))
        \<and> write_ascii_values d1 msg vals args check_errors =
            (case py_len vals of
               Inl e \<Rightarrow> Some (Inl e, d1)
             | Inr n \<Rightarrow>
                 checked d1 check_errors
                   (case t_done t hist (WriteAscii msg vals args) of
                      Some e \<Rightarrow> Inl e | None \<Rightarrow> Inr RetSelf,
                    sent (WriteAscii msg vals args)))
        \<and> write_binary_values bb d1 msg vals dt be args check_errors =
            (case bb vals dt be of
               Inl e \<Rightarrow> Some (Inl e, d1)
             | Inr bh \<Rightarrow>
                 checked d1 check_errors
                   (case t_done t hist (WriteBinary msg vals (dt # be # args)) of
                      Some e \<Rightarrow> Inl e | None \<Rightarrow> Inr RetSelf,
                    sent (WriteBinary msg vals (dt # be # args))))
        \<and> checked d1 check_errors (Inl e, d') = Some (Inl e, d')
        \<and> checked d1 False r = Some r
        \<and> checked d1 True (Inr res, d') =
            (case check_errors_and_log d' of
               None \<Rightarrow> None
             | Some (Inl e', d'') \<Rightarrow> Some (Inl e', d'')
             | Some (Inr u, d'') \<Rightarrow> Some (Inr res, d''))"
    unfolding Let_def
    by (intro conjI) (rule c q qa qb w wa wb k checked_failure checked_default)+
qed

theorem io_after_close_witness:
  "d_ins scope_driver = Some scope_transport
   \<and> snd (close scope_driver) = scope_driver\<lparr>d_ins := Some (scope_transport\<lparr>t_calls := [Close]\<rparr>)\<rparr>
   \<and> query (scope_driver\<lparr>d_ins := Some (scope_transport\<lparr>t_calls := [Close]\<rparr>)\<rparr>) ''*IDN?'' True
       = Some (Inl VisaIOError,
               scope_driver\<lparr>d_ins := Some (scope_transport\<lparr>t_calls := [Close, Query ''*IDN?'']\<rparr>)\<rparr>)
   \<and> write_message (scope_driver\<lparr>d_ins := Some (scope_transport\<lparr>t_calls := [Close]\<rparr>)\<rparr>) '':RUN'' False
       = Some (Inl VisaIOError,
               scope_driver\<lparr>d_ins := Some (scope_transport\<lparr>t_calls := [Close, Write '':RUN'']\<rparr>)\<rparr>)
   \<and> d_ins (scope_driver\<lparr>d_ins := None\<rparr>) = None
   \<and> query (snd (close (scope_driver\<lparr>d_ins := None\<rparr>))) ''*IDN?'' True
       = Some (Inr None, scope_driver\<lparr>d_ins := None\<rparr>)"
proof -
  have 1: "d_ins scope_driver = Some scope_transport"
    by (simp add: scope_driver_def)
  have 2: "t_calls scope_transport = []"
    and 3: "t_text scope_transport [Close] msg = Inl VisaIOError"
    and 4: "t_done scope_transport [Close] c = Some VisaIOError" for msg c
    by (simp_all add: scope_transport_def)
  have 5: "d_ins (scope_driver\<lparr>d_ins := None\<rparr>) = None"
    by simp
  from io_after_close [where d = scope_driver and t = scope_transport and msg = "''*IDN?''"
      and check_errors = True and args = ascii_defaults and vals = VNone and dt = VNone and be = VNone
      and bb = "\<lambda>v dt be. Inl TypeError" and e = VisaIOError and d' = scope_driver
      and r = "(Inr (), scope_driver)" and res = "()"] 1
  have a: "snd (close scope_driver) = scope_driver\<lparr>d_ins := Some (scope_transport\<lparr>t_calls := [Close]\<rparr>)\<rparr>"
    and b: "query (scope_driver\<lparr>d_ins := Some (scope_transport\<lparr>t_calls := [Close]\<rparr>)\<rparr>) ''*IDN?'' True
       = Some (Inl VisaIOError,
               scope_driver\<lparr>d_ins := Some (scope_transport\<lparr>t_calls := [Close, Query ''*IDN?'']\<rparr>)\<rparr>)"
    by (simp_all add: Let_def 2 3 checked_failure)
  from io_after_close [where d = scope_driver and t = scope_transport and msg = "'':RUN''"
      and check_errors = False and args = ascii_defaults and vals = VNone and dt = VNone and be = VNone
      and bb = "\<lambda>v dt be. Inl TypeError" and e = VisaIOError and d' = scope_driver
      and r = "(Inr (), scope_driver)" and res = "()"] 1
  have c: "write_message (scope_driver\<lparr>d_ins := Some (scope_transport\<lparr>t_calls := [Close]\<rparr>)\<rparr>) '':RUN'' False
       = Some (Inl VisaIOError,
               scope_driver\<lparr>d_ins := Some (scope_transport\<lparr>t_calls := [Close, Write '':RUN'']\<rparr>)\<rparr>)"
    by (simp add: Let_def 2 4 checked_failure)
  from io_after_close [where d = "scope_driver\<lparr>d_ins := None\<rparr>" and msg = "''*IDN?''"
      and check_errors = True and args = ascii_defaults and vals = VNone and dt = VNone and be = VNone
      and bb = "\<lambda>v dt be. Inl TypeError" and e = VisaIOError and d' = scope_driver
      and r = "(Inr (), scope_driver)" and res = "()"] 5
  have d: "query (snd (close (scope_driver\<lparr>d_ins := None\<rparr>))) ''*IDN?'' True
       = Some (Inr None, scope_driver\<lparr>d_ins := None\<rparr>)"
    by blast
  from 1 a b c 5 d show ?thesis by blast
qed

text \<open>
  The claim as stated fails: a query after \<open>close\<close> reaches the released handle, whose
  call log then reads \<open>Close\<close>, \<open>Query\<close>; that the call fails is the handle's doing.
\<close>

theorem closed_handle_reused_counterexample:
  "query (snd (close scope_driver)) ''*IDN?'' False
     = Some (Inl VisaIOError,
             scope_driver\<lparr>d_ins := Some (scope_transport\<lparr>t_calls := [Close, Query ''*IDN?'']\<rparr>)\<rparr>)
   \<and> calls_of scope_driver = []"
  by (simp add: query_def checked_default query_io_def close_def ins_do_def ins_query_def
      scope_driver_def scope_transport_def calls_of_def)

section \<open>Address resolution\<close>

text \<open>
  The pattern on some addresses: the optional \<open>::INSTR\<close> and a line feed at the end
  are accepted; a missing index, a cut suffix, another model and lower case are not.
\<close>

lemma ats_addr_examples:
  "ats_addr ''ATS9870::SYSTEM12::3::INSTR'' = Some (''ATS9870'', ''12'', ''3'')"
  "ats_addr (''ATS9850::SYSTEM1::2'' @ [CHR 0x0A]) = Some (''ATS9850'', ''1'', ''2'')"
  "ats_addr ''ATS9360::SYSTEM::2'' = None"
  "ats_addr ''ATS9360::SYSTEM1::2::INST'' = None"
  "ats_addr ''ATS9361::SYSTEM1::2'' = None"
  "ats_addr ''ats9360::system1::2'' = None"
  "ats_addr ''GPIB0::7::INSTR'' = None"
  by code_simp+

lemma ats_example: "u_parse_resource_name ''ATS9360::SYSTEM1::2'' =
      Inr \<lparr>i_type = Some ''ATS'', i_ins = None, i_company = Some ''AlazarTech'',
           i_model = Some ''ATS9360'', i_version = None, i_systemID = Some 1,
           i_boardID = Some 2, i_addr = ''ATS9360::SYSTEM1::2''\<rparr>"
proof -
  have "ats_addr ''ATS9360::SYSTEM1::2'' = Some (''ATS9360'', ''1'', ''2'')"
    by code_simp
  moreover have "py_int_str ''1'' = Inr 1" and "py_int_str ''2'' = Inr 2"
    by code_simp+
  ultimately show ?thesis
    by (simp add: u_parse_resource_name_def u_parse_ats_resource_name_def)
qed

text \<open>
  C8. The address \<open>ATS9360::SYSTEM1::2\<close> resolves to a digitizer-board descriptor with
  model \<open>ATS9360\<close>, systemID 1 and boardID 2 and no transport; resolving it is a pure
  function of the address, and opening a driver for it leaves the resource manager as it
  was, so nothing is opened and nothing queried. Every address that the digitizer-board
  pattern does not match is classified as a generic bus resource, of type \<open>Visa\<close>.
\<close>

theorem ats_address_resolution:
  "u_parse_resource_name ''ATS9360::SYSTEM1::2'' =
      Inr \<lparr>i_type = Some ''ATS'', i_ins = None, i_company = Some ''AlazarTech'',
           i_model = Some ''ATS9360'', i_version = None, i_systemID = Some 1,
           i_boardID = Some 2, i_addr = ''ATS9360::SYSTEM1::2''\<rparr>
   \<and> snd (u_open_resource import_module rm ''ATS9360::SYSTEM1::2'' driver_name kw) = rm
   \<and> (ats_addr addr = None \<longrightarrow>
        u_parse_resource_name addr =
          Inr \<lparr>i_type = Some ''Visa'', i_ins = None, i_company = None, i_model = None,
               i_version = None, i_systemID = None, i_boardID = None, i_addr = addr\<rparr>)"
proof (intro conjI impI)
  show "snd (u_open_resource import_module rm ''ATS9360::SYSTEM1::2'' driver_name kw) = rm"
    by (simp add: u_open_resource_def ats_example split: sum.splits)
qed (rule ats_example, simp add: u_parse_resource_name_def)

theorem ats_address_resolution_witness:
  "ats_addr ''TCPIP::10.0.0.5'' = None
   \<and> u_parse_resource_name ''TCPIP::10.0.0.5'' =
       Inr \<lparr>i_type = Some ''Visa'', i_ins = None, i_company = None, i_model = None,
            i_version = None, i_systemID = None, i_boardID = None, i_addr = ''TCPIP::10.0.0.5''\<rparr>
   \<and> snd (u_open_resource lab_modules (lab_rm ''ACME,Scope9000,SN1,1.2.3'')
            ''ATS9360::SYSTEM1::2'' ''scope'' [])
       = lab_rm ''ACME,Scope9000,SN1,1.2.3''"
proof -
  have n: "ats_addr ''TCPIP::10.0.0.5'' = None"
    by code_simp
  from ats_address_resolution [of lab_modules "lab_rm ''ACME,Scope9000,SN1,1.2.3''" "''scope''" "[]"
      "''TCPIP::10.0.0.5''"] n
  show ?thesis by blast
qed

text \<open>
  C3, as the code has it. Opening a generic-bus address opens the resource, sends one
  \<open>*IDN?\<close> query and splits the reply on commas. With four fields or more, company,
  model and version are the first, second and fourth field, each stripped of surrounding
  white space. With fewer than four fields the indexing \<open>IDN[1]\<close> or \<open>IDN[3]\<close>
  raises IndexError: the code has no check of the length and no ProtocolError.
\<close>

theorem identification_reply_fields:
  assumes "rm_resources rm addr = Inr ins"
    and "t_text ins (t_calls ins) ''*IDN?'' = Inr reply"
  shows "(4 \<le> length (py_split '','' reply) \<longrightarrow>
           u_open_visa_resource rm addr =
             (Inr \<lparr>i_type = None, i_ins = Some (ins\<lparr>t_calls := t_calls ins @ [Query ''*IDN?'']\<rparr>),
                   i_company = Some (py_strip (py_split '','' reply ! 0)),
                   i_model = Some (py_strip (py_split '','' reply ! 1)),
                   i_version = Some (py_strip (py_split '','' reply ! 3)),
                   i_systemID = None, i_boardID = None, i_addr = addr\<rparr>,
              rm\<lparr>rm_opened := rm_opened rm @ [addr]\<rparr>))
       \<and> (length (py_split '','' reply) < 4 \<longrightarrow>
           u_open_visa_resource rm addr = (Inl IndexError, rm\<lparr>rm_opened := rm_opened rm @ [addr]\<rparr>))"
  using assms
  by (simp add: u_open_visa_resource_def open_resource_def ins_query_def item_def Let_def)

theorem identification_reply_fields_witness:
  "u_open_visa_resource (lab_rm ''ACME, Scope9000,SN1, 1.2.3'') ''TCPIP::10.0.0.5''
     = (Inr \<lparr>i_type = None,
             i_ins = Some (idn_transport ''ACME, Scope9000,SN1, 1.2.3''\<lparr>t_calls := [Query ''*IDN?'']\<rparr>),
             i_company = Some ''ACME'', i_model = Some ''Scope9000'', i_version = Some ''1.2.3'',
             i_systemID = None, i_boardID = None, i_addr = ''TCPIP::10.0.0.5''\<rparr>,
        lab_rm ''ACME, Scope9000,SN1, 1.2.3''\<lparr>rm_opened := [''TCPIP::10.0.0.5'']\<rparr>)
   \<and> length (py_split '','' ''ACME, Scope9000,SN1, 1.2.3'') = 4"
proof -
  let ?reply = "''ACME, Scope9000,SN1, 1.2.3''"
  have 1: "rm_resources (lab_rm ?reply) ''TCPIP::10.0.0.5'' = Inr (idn_transport ?reply)"
    by (simp add: lab_rm_def)
  have 2: "t_text (idn_transport ?reply) (t_calls (idn_transport ?reply)) ''*IDN?'' = Inr ?reply"
    by (simp add: idn_transport_def)
  have 3: "py_split '','' ?reply = [''ACME'', '' Scope9000'', ''SN1'', '' 1.2.3'']"
    by code_simp
  have 4: "py_strip ''ACME'' = ''ACME''" "py_strip '' Scope9000'' = ''Scope9000''"
    "py_strip '' 1.2.3'' = ''1.2.3''"
    by code_simp+
  have 5: "t_calls (idn_transport ?reply) = []" "rm_opened (lab_rm ?reply) = []"
    by (simp_all add: idn_transport_def lab_rm_def)
  from identification_reply_fields [OF 1 2] show ?thesis
    by (simp add: 3 4 5)
qed

text \<open>
  The claim as stated fails: for the three-field reply \<open>ACME,Scope9000,SN1\<close> the
  outcome is the out-of-range fault IndexError.
\<close>

theorem short_identification_reply_counterexample:
  "u_open_visa_resource (lab_rm ''ACME,Scope9000,SN1'') ''TCPIP::10.0.0.5''
     = (Inl IndexError, lab_rm ''ACME,Scope9000,SN1''\<lparr>rm_opened := [''TCPIP::10.0.0.5'']\<rparr>)"
  by (simp add: u_open_visa_resource_def open_resource_def ins_query_def item_def Let_def
      lab_rm_def idn_transport_def py_split_def)

section \<open>The driver cache\<close>

text \<open>
  Called with an instrument record whose name is not yet cached, a successful \<open>open\<close>
  has run \<open>_open_resource\<close> once: the manager it leaves holds the driver and the
  resource manager that this one run returned, and the driver is cached under the name. A
  second \<open>open\<close> with a record of the same name, whatever its keyword arguments,
  returns the reference of that same object and leaves the manager as it is.
\<close>

lemma open_record_cached:
  assumes "ins_name i2 = ins_name i1"
    and "m_instr m (ins_name i1) = None"
    and "DriverManager_open import_module m (ByRecord i1) kw1 = (Inr r, m1)"
  shows "\<exists>d rm'. u_open_resource import_module (m_rm m) (ins_address i1) (ins_driver i1) kw1 = (Inr d, rm')
           \<and> m1 = m\<lparr>m_instr := (m_instr m)(ins_name i1 \<mapsto> length (m_objects m)),
                     m_objects := m_objects m @ [d], m_rm := rm'\<rparr>
           \<and> r = length (m_objects m)
           \<and> DriverManager_open import_module m1 (ByRecord i2) kw2 = (Inr r, m1)"
proof -
  obtain res rm' where o: "u_open_resource import_module (m_rm m) (ins_address i1) (ins_driver i1) kw1 = (res, rm')"
    by (cases "u_open_resource import_module (m_rm m) (ins_address i1) (ins_driver i1) kw1")
  from assms(3) assms(2) o obtain d where res: "res = Inr d"
    by (cases res) (auto simp: DriverManager_open_def instrument_of_def)
  from assms(3) assms(2) o res
  have r: "r = length (m_objects m)"
    and m1: "m1 = m\<lparr>m_instr := (m_instr m)(ins_name i1 \<mapsto> length (m_objects m)),
                   m_objects := m_objects m @ [d], m_rm := rm'\<rparr>"
    by (auto simp: DriverManager_open_def instrument_of_def)
  have "DriverManager_open import_module m1 (ByRecord i2) kw2 = (Inr r, m1)"
    by (simp add: DriverManager_open_def instrument_of_def assms(1) m1 r)
  with o res r m1 show ?thesis by blast
qed

lemma open_record_cached_example:
  "(case DriverManager_open lab_modules
           (DriverManager_init (lab_rm ''ACME,Scope9000,SN1,1.2.3'')) (ByRecord scope1) [] of
      (r1, m1) \<Rightarrow>
        r1 = Inr 0 \<and> length (m_objects m1) = 1 \<and> rm_opened (m_rm m1) = [''TCPIP::10.0.0.5'']
        \<and> DriverManager_open lab_modules m1 (ByRecord scope1) [(''timeout'', VInt 10)]
            = (Inr 0, m1))"
proof -
  let ?m = "DriverManager_init (lab_rm ''ACME,Scope9000,SN1,1.2.3'')"
  obtain r1 m1 where o: "DriverManager_open lab_modules ?m (ByRecord scope1) [] = (r1, m1)"
    by (cases "DriverManager_open lab_modules ?m (ByRecord scope1) []")
  have 4: "m_instr ?m (ins_name scope1) = None"
    by (simp add: DriverManager_init_def)
  have a: "ats_addr ''TCPIP::10.0.0.5'' = None"
    by code_simp
  have s: "py_split '','' ''ACME,Scope9000,SN1,1.2.3'' = [''ACME'', ''Scope9000'', ''SN1'', ''1.2.3'']"
    by code_simp
  have v: "u_open_visa_resource (lab_rm ''ACME,Scope9000,SN1,1.2.3'') ''TCPIP::10.0.0.5''
     = (Inr \<lparr>i_type = None,
             i_ins = Some (idn_transport ''ACME,Scope9000,SN1,1.2.3''\<lparr>t_calls := [Query ''*IDN?'']\<rparr>),
             i_company = Some (py_strip ''ACME''), i_model = Some (py_strip ''Scope9000''),
             i_version = Some (py_strip ''1.2.3''),
             i_systemID = None, i_boardID = None, i_addr = ''TCPIP::10.0.0.5''\<rparr>,
        lab_rm ''ACME,Scope9000,SN1,1.2.3''\<lparr>rm_opened := [''TCPIP::10.0.0.5'']\<rparr>)"
    by (simp add: u_open_visa_resource_def open_resource_def ins_query_def item_def Let_def
      lab_rm_def idn_transport_def s)
  have u: "u_open_resource lab_modules (lab_rm ''ACME,Scope9000,SN1,1.2.3'')
             ''TCPIP::10.0.0.5'' ''scope'' []
     = (Inr (BaseDriver_init [mode_quantity] ''SYST:ERR?''
               (Some (idn_transport ''ACME,Scope9000,SN1,1.2.3''\<lparr>t_calls := [Query ''*IDN?'']\<rparr>))
               (VStr ''TCPIP::10.0.0.5'') (VStr (py_strip ''Scope9000'')) 3),
        lab_rm ''ACME,Scope9000,SN1,1.2.3''\<lparr>rm_opened := [''TCPIP::10.0.0.5'']\<rparr>)"
    by (simp add: u_open_resource_def u_parse_resource_name_def a v u_load_driver_def
        lab_modules_def plain_class_def)
  have mrm: "m_rm ?m = lab_rm ''ACME,Scope9000,SN1,1.2.3''"
    and mo: "m_objects ?m = []" and mi: "m_instr ?m ''scope1'' = None"
    by (simp_all add: DriverManager_init_def)
  have sc: "ins_name scope1 = ''scope1''" "ins_address scope1 = ''TCPIP::10.0.0.5''"
    "ins_driver scope1 = ''scope''"
    by (simp_all add: scope1_def)
  have r1: "r1 = Inr 0" and rm: "rm_opened (m_rm m1) = [''TCPIP::10.0.0.5'']"
    using o
    by (auto simp: DriverManager_open_def instrument_of_def sc mrm mo mi u)
  from open_record_cached [OF refl 4 o [unfolded r1], where ?kw2.0 = "[(''timeout'', VInt 10)]"]
  show ?thesis
    using rm by (auto simp add: o r1 mo)
qed

text \<open>
  C7. The claim is about \<open>open\<close> called with a logical name, and there the code does
  not do what it says: the name \<open>db\<close> is unbound, so \<open>open\<close> with any name raises
  NameError before the cache is looked at, on the first call and on the second, and no
  driver is returned or cached.
\<close>

theorem open_by_name_raises:
  "DriverManager_open import_module m (ByName n) kw = (Inl NameError, m)
   \<and> DriverManager_open import_module
        (snd (DriverManager_open import_module m (ByName n) kw)) (ByName n) kw2
       = (Inl NameError, m)"
  by (simp add: DriverManager_open_def instrument_of_def)

section \<open>The binary block round trip\<close>













lemma decimal_step: "10 \<le> n \<Longrightarrow> decimal n = decimal (n div 10) @ [char_of (48 + n mod 10)]"
  by (subst decimal.simps) simp














end
